theory Spec2Isabelle
  imports Main
begin

section \<open>Phone number validation (package api, validator.go)\<close>

text \<open>
  Go strings are byte sequences, \<open>len\<close> counts bytes and \<open>s[i:j]\<close> slices bytes, so a Go
  string is a \<^typ>\<open>string\<close> here (a list of 8-bit characters), \<open>len\<close> is \<^const>\<open>length\<close>
  and the guarded slices \<open>s[:k]\<close>, \<open>s[k:]\<close> are \<^const>\<open>take\<close> and \<^const>\<open>drop\<close>.
  A Go function returning \<open>(T, error)\<close> returns \<open>error + T\<close>, one returning only
  \<open>error\<close> returns \<open>error option\<close> (\<open>None\<close> for \<open>nil\<close>).
\<close>

subsection \<open>The three country tables\<close>

definition CountryPhoneLengths_entries :: "(string \<times> nat \<times> nat) list" where
  "CountryPhoneLengths_entries =
    [(''US'', 10, 10), (''CA'', 10, 10), (''MX'', 10, 10), (''ES'', 9, 9), (''PT'', 9, 9),
     (''GB'', 10, 11), (''FR'', 10, 10), (''DE'', 10, 12), (''IT'', 9, 11), (''BR'', 10, 11)]"

definition CountryPhoneLengths :: "string \<rightharpoonup> nat \<times> nat" where
  "CountryPhoneLengths = map_of CountryPhoneLengths_entries"

definition CountryDialingCodes_entries :: "(string \<times> string) list" where
  "CountryDialingCodes_entries =
    [(''US'', ''1''), (''CA'', ''1''), (''MX'', ''52''), (''ES'', ''34''), (''PT'', ''351''),
     (''GB'', ''44''), (''FR'', ''33''), (''DE'', ''49''), (''IT'', ''39''), (''BR'', ''55'')]"

definition CountryDialingCodes :: "string \<rightharpoonup> string" where
  "CountryDialingCodes = map_of CountryDialingCodes_entries"

definition DialingCodeToCountry_entries :: "(string \<times> string) list" where
  "DialingCodeToCountry_entries =
    [(''1'', ''US''), (''52'', ''MX''), (''34'', ''ES''), (''351'', ''PT''), (''44'', ''GB''),
     (''33'', ''FR''), (''49'', ''DE''), (''39'', ''IT''), (''55'', ''BR'')]"

definition DialingCodeToCountry :: "string \<rightharpoonup> string" where
  "DialingCodeToCountry = map_of DialingCodeToCountry_entries"

subsection \<open>Results and errors\<close>

record PhoneValidationResponse =
  PhoneNumber :: string
  CountryCode :: string
  AreaCode :: string
  LocalPhoneNumber :: string

text \<open>One constructor for each \<open>errors.New\<close> of validator.go; \<open>error_message\<close> is its text.\<close>

datatype error =
    PhoneNumberRequired
  | InvalidSpacingPattern
  | InvalidCharacters
  | UnableToExtractDialingCode
  | UnsupportedCountryDialingCode
  | CountryCodeRequired
  | CountryCodeMustBe2Characters
  | UnsupportedCountryCode
  | PhoneLengthInvalid string

fun error_message :: "error \<Rightarrow> string" where
  "error_message PhoneNumberRequired = ''phoneNumber is required''"
| "error_message InvalidSpacingPattern = ''invalid spacing pattern''"
| "error_message InvalidCharacters = ''phone number contains invalid characters''"
| "error_message UnableToExtractDialingCode = ''unable to extract dialing code''"
| "error_message UnsupportedCountryDialingCode = ''unsupported country dialing code''"
| "error_message CountryCodeRequired =
     ''countryCode is required for numbers without country code''"
| "error_message CountryCodeMustBe2Characters =
     ''country code must be 2 characters (ISO 3166-1 alpha-2)''"
| "error_message UnsupportedCountryCode = ''unsupported country code''"
| "error_message (PhoneLengthInvalid countryCode) =
     ''phone number length is invalid for country '' @ countryCode"

subsection \<open>The string functions of Go's library that the validator calls\<close>

text \<open>\<open>strings.HasPrefix(s, p)\<close>: \<open>len(s) >= len(p) && s[:len(p)] == p\<close>.\<close>

definition HasPrefix :: "string \<Rightarrow> string \<Rightarrow> bool" where
  "HasPrefix s p \<longleftrightarrow> length p \<le> length s \<and> take (length p) s = p"

text \<open>\<open>strings.Split(s, sep)\<close> for a one-byte separator: the pieces between the separators,
  one more piece than there are separators, \<open>[""]\<close> for the empty string.\<close>

fun Split :: "string \<Rightarrow> char \<Rightarrow> string list" where
  "Split [] sep = [[]]"
| "Split (c # cs) sep =
     (if c = sep then [] # Split cs sep
      else (case Split cs sep of [] \<Rightarrow> [[c]] | part # parts \<Rightarrow> (c # part) # parts))"

text \<open>The classes of the regular expression \<open>^[\d\s+]+$\<close> in Go's RE2 syntax: \<open>\d\<close> is
  \<open>[0-9]\<close> and \<open>\s\<close> is \<open>[\t\n\f\r ]\<close>. Without the flag \<open>m\<close>, \<open>^\<close> and \<open>$\<close> match only at
  the two ends of the text, so the expression matches exactly the non-empty strings all of
  whose bytes are in the class (a byte outside ASCII belongs to no rune of the class).\<close>

definition isDigit :: "char \<Rightarrow> bool" where
  "isDigit c \<longleftrightarrow> c \<in> set ''0123456789''"

definition isWhitespace :: "char \<Rightarrow> bool" where
  "isWhitespace c \<longleftrightarrow> c \<in> set [CHR 0x09, CHR 0x0A, CHR 0x0C, CHR 0x0D, CHR '' '']"

definition validChar :: "char \<Rightarrow> bool" where
  "validChar c \<longleftrightarrow> isDigit c \<or> isWhitespace c \<or> c = CHR ''+''"

definition validChars_MatchString :: "string \<Rightarrow> bool" where
  "validChars_MatchString s \<longleftrightarrow> s \<noteq> [] \<and> list_all validChar s"

subsection \<open>The validator's methods\<close>

definition validateSpacing :: "string \<Rightarrow> error option" where
  "validateSpacing originalPhoneNumber =
     (if CHR '' '' \<in> set originalPhoneNumber
      then (if length (Split originalPhoneNumber (CHR '' '')) = 4
            then Some InvalidSpacingPattern else None)
      else None)"

text \<open>\<open>strings.ReplaceAll(phoneNumber, " ", "")\<close> removes the bytes \<open>0x20\<close> and no other.\<close>

definition cleanPhoneNumber :: "string \<Rightarrow> error + string" where
  "cleanPhoneNumber phoneNumber =
     (if \<not> validChars_MatchString phoneNumber then Inl InvalidCharacters
      else Inr (filter (\<lambda>c. c \<noteq> CHR '' '') phoneNumber))"

text \<open>The loop over the keys of the map returns true as soon as one key is a prefix; the
  order of a Go map iteration does not change that.\<close>

definition hasDialingCode :: "string \<Rightarrow> bool" where
  "hasDialingCode phoneNumber \<longleftrightarrow>
     list_ex (\<lambda>dialingCode. HasPrefix phoneNumber dialingCode)
       (map fst DialingCodeToCountry_entries)"

definition extractDialingCode :: "string \<Rightarrow> error + (string \<times> string)" where
  "extractDialingCode phoneNumber =
     (if 3 \<le> length phoneNumber \<and> DialingCodeToCountry (take 3 phoneNumber) \<noteq> None
      then Inr (take 3 phoneNumber, drop 3 phoneNumber)
      else if 2 \<le> length phoneNumber \<and> DialingCodeToCountry (take 2 phoneNumber) \<noteq> None
      then Inr (take 2 phoneNumber, drop 2 phoneNumber)
      else if 1 \<le> length phoneNumber \<and> DialingCodeToCountry (take 1 phoneNumber) \<noteq> None
      then Inr (take 1 phoneNumber, drop 1 phoneNumber)
      else Inl UnableToExtractDialingCode)"

definition splitNationalNumber :: "string \<Rightarrow> string \<Rightarrow> string \<times> string" where
  "splitNationalNumber nationalNumber countryCode =
     (if 3 \<le> length nationalNumber then
        (if countryCode = ''US'' \<or> countryCode = ''CA'' \<or> countryCode = ''MX''
         then (take 3 nationalNumber, drop 3 nationalNumber)
         else if countryCode = ''ES'' \<or> countryCode = ''PT'' \<or> countryCode = ''FR''
                 \<or> countryCode = ''IT'' \<or> countryCode = ''BR''
         then (take 2 nationalNumber, drop 2 nationalNumber)
         else if countryCode = ''GB''
         then (if 4 \<le> length nationalNumber
               then (take 4 nationalNumber, drop 4 nationalNumber)
               else (take 3 nationalNumber, drop 3 nationalNumber))
         else if countryCode = ''DE''
         then (take 3 nationalNumber, drop 3 nationalNumber)
         else ([], nationalNumber))
      else ([], nationalNumber))"

definition parsePhoneNumber :: "string \<Rightarrow> string \<Rightarrow> error + (string \<times> string \<times> string)" where
  "parsePhoneNumber phoneNumber0 providedCountryCode =
     (let hasPlus = HasPrefix phoneNumber0 ''+'';
          phoneNumber = (if hasPlus then drop 1 phoneNumber0 else phoneNumber0)
      in if hasPlus \<or> hasDialingCode phoneNumber then
           (case extractDialingCode phoneNumber of
              Inl err \<Rightarrow> Inl err
            | Inr (dialingCode, remaining) \<Rightarrow>
                (case DialingCodeToCountry dialingCode of
                   None \<Rightarrow> Inl UnsupportedCountryDialingCode
                 | Some country \<Rightarrow>
                     (case splitNationalNumber remaining country of
                        (areaCode, localNumber) \<Rightarrow> Inr (country, areaCode, localNumber))))
         else if providedCountryCode = [] then Inl CountryCodeRequired
         else (case splitNationalNumber phoneNumber providedCountryCode of
                 (areaCode, localNumber) \<Rightarrow> Inr (providedCountryCode, areaCode, localNumber)))"

definition validateCountryCode :: "string \<Rightarrow> error option" where
  "validateCountryCode countryCode =
     (if length countryCode \<noteq> 2 then Some CountryCodeMustBe2Characters
      else if CountryPhoneLengths countryCode = None then Some UnsupportedCountryCode
      else None)"

definition validatePhoneLength :: "string \<Rightarrow> string \<Rightarrow> error option" where
  "validatePhoneLength nationalNumber countryCode =
     (case CountryPhoneLengths countryCode of
        None \<Rightarrow> Some UnsupportedCountryCode
      | Some (minLength, maxLength) \<Rightarrow>
          (if length nationalNumber < minLength \<or> maxLength < length nationalNumber
           then Some (PhoneLengthInvalid countryCode) else None))"

text \<open>Reading a missing key of a Go map gives the zero value, the empty string.\<close>

definition formatPhoneNumber :: "string \<Rightarrow> string \<Rightarrow> string \<Rightarrow> string" where
  "formatPhoneNumber countryCode areaCode localNumber =
     ''+'' @ (case CountryDialingCodes countryCode of None \<Rightarrow> [] | Some dialingCode \<Rightarrow> dialingCode)
       @ areaCode @ localNumber"

definition ValidatePhoneNumber :: "string \<Rightarrow> string \<Rightarrow> error + PhoneValidationResponse" where
  "ValidatePhoneNumber phoneNumber countryCode =
     (if phoneNumber = [] then Inl PhoneNumberRequired
      else case validateSpacing phoneNumber of
        Some err \<Rightarrow> Inl err
      | None \<Rightarrow>
       (case cleanPhoneNumber phoneNumber of
          Inl err \<Rightarrow> Inl err
        | Inr cleanedNumber \<Rightarrow>
         (case parsePhoneNumber cleanedNumber countryCode of
            Inl err \<Rightarrow> Inl err
          | Inr (extractedCountryCode, areaCode, localNumber) \<Rightarrow>
           (case validateCountryCode extractedCountryCode of
              Some err \<Rightarrow> Inl err
            | None \<Rightarrow>
             (case validatePhoneLength (areaCode @ localNumber) extractedCountryCode of
                Some err \<Rightarrow> Inl err
              | None \<Rightarrow>
                 Inr \<lparr>PhoneNumber = formatPhoneNumber extractedCountryCode areaCode localNumber,
                      CountryCode = extractedCountryCode,
                      AreaCode = areaCode,
                      LocalPhoneNumber = localNumber\<rparr>)))))"

subsection \<open>A notion of the specification\<close>

text \<open>The specification measures a national number by its "digit count". Following its
  words, that is the number of decimal digits of the string; the validator itself takes
  \<open>len\<close>, the number of bytes.\<close>

definition digitCount :: "string \<Rightarrow> nat" where
  "digitCount s = length (filter isDigit s)"

section \<open>Properties\<close>

lemmas tables = CountryPhoneLengths_def CountryPhoneLengths_entries_def CountryDialingCodes_def
  CountryDialingCodes_entries_def DialingCodeToCountry_def DialingCodeToCountry_entries_def

lemmas defs = ValidatePhoneNumber_def validateSpacing_def cleanPhoneNumber_def
  parsePhoneNumber_def validateCountryCode_def validatePhoneLength_def formatPhoneNumber_def
  hasDialingCode_def extractDialingCode_def splitNationalNumber_def HasPrefix_def
  validChars_MatchString_def validChar_def isDigit_def isWhitespace_def

subsection \<open>Library functions\<close>

lemma Split_not_Nil: "Split s sep \<noteq> []"
  by (induction s) (auto split: list.splits)

text \<open>Four parts are exactly three separators.\<close>

lemma length_Split: "length (Split s sep) = Suc (count_list s sep)"
  by (induction s) (auto simp: Split_not_Nil split: list.splits)

lemma HasPrefix_append: "HasPrefix s p \<longleftrightarrow> (\<exists>rest. s = p @ rest)"
proof
  assume "HasPrefix s p"
  then have "s = p @ drop (length p) s"
    by (metis HasPrefix_def append_take_drop_id)
  then show "\<exists>rest. s = p @ rest" ..
next
  assume "\<exists>rest. s = p @ rest"
  then show "HasPrefix s p" by (auto simp: HasPrefix_def)
qed

subsection \<open>Dialing codes\<close>

lemma DialingCodeToCountry_cases:
  "DialingCodeToCountry d = Some C \<Longrightarrow> (d, C) \<in> set DialingCodeToCountry_entries"
  unfolding DialingCodeToCountry_def by (rule map_of_SomeD)

lemma hasDialingCode_iff:
  "hasDialingCode s \<longleftrightarrow> (\<exists>d \<in> dom DialingCodeToCountry. HasPrefix s d)"
  by (simp add: hasDialingCode_def list_ex_iff DialingCodeToCountry_def
      dom_map_of_conv_image_fst)

text \<open>No known code is a proper prefix of another one, so a number that starts with a known
  code gives that code back.\<close>

lemma extractDialingCode_known:
  assumes "DialingCodeToCountry d = Some C"
  shows "extractDialingCode (d @ n) = Inr (d, n)"
  using DialingCodeToCountry_cases [OF assms]
  apply (simp add: DialingCodeToCountry_entries_def)
  apply (elim disjE conjE)
  apply (cases n; cases "tl n"; simp add: extractDialingCode_def tables)+
  done

lemma extractDialingCode_Inr:
  assumes "extractDialingCode s = Inr (d, rest)"
  shows "d \<in> dom DialingCodeToCountry \<and> s = d @ rest"
proof -
  from assms
  have "\<exists>k. d = take k s \<and> rest = drop k s \<and> DialingCodeToCountry (take k s) \<noteq> None"
    unfolding extractDialingCode_def by (simp split: if_splits) blast+
  then show ?thesis by auto
qed

lemma extractDialingCode_Inl:
  "extractDialingCode s = Inl err \<Longrightarrow> err = UnableToExtractDialingCode"
  unfolding extractDialingCode_def by (simp split: if_splits)

subsection \<open>The pipeline\<close>

lemma ValidatePhoneNumber_reaches_length_check:
  assumes "phoneNumber \<noteq> []" and "validateSpacing phoneNumber = None"
    and "cleanPhoneNumber phoneNumber = Inr cleaned"
    and "parsePhoneNumber cleaned countryCode = Inr (C, areaCode, localNumber)"
    and "validateCountryCode C = None"
  shows "ValidatePhoneNumber phoneNumber countryCode =
     (case validatePhoneLength (areaCode @ localNumber) C of
        Some err \<Rightarrow> Inl err
      | None \<Rightarrow> Inr \<lparr>PhoneNumber = formatPhoneNumber C areaCode localNumber,
                     CountryCode = C, AreaCode = areaCode, LocalPhoneNumber = localNumber\<rparr>)"
  using assms by (simp add: ValidatePhoneNumber_def)

lemma digitCount_all_digits: "list_all isDigit s \<Longrightarrow> digitCount s = length s"
  by (simp add: digitCount_def list_all_iff)

text \<open>When only digits reach the length check, it decides by the digit count.\<close>

lemma length_validation_on_digits:
  assumes "phoneNumber \<noteq> []" and "validateSpacing phoneNumber = None"
    and "cleanPhoneNumber phoneNumber = Inr cleaned"
    and "parsePhoneNumber cleaned countryCode = Inr (C, areaCode, localNumber)"
    and "validateCountryCode C = None"
    and "list_all isDigit (areaCode @ localNumber)"
  shows "\<exists>minLength maxLength. CountryPhoneLengths C = Some (minLength, maxLength)
      \<and> ValidatePhoneNumber phoneNumber countryCode =
         (if minLength \<le> digitCount (areaCode @ localNumber)
             \<and> digitCount (areaCode @ localNumber) \<le> maxLength
          then Inr \<lparr>PhoneNumber = formatPhoneNumber C areaCode localNumber,
                    CountryCode = C, AreaCode = areaCode, LocalPhoneNumber = localNumber\<rparr>
          else Inl (PhoneLengthInvalid C))"
proof -
  from assms(5) obtain minLength maxLength
    where lens: "CountryPhoneLengths C = Some (minLength, maxLength)"
    by (auto simp: validateCountryCode_def split: if_splits)
  have count: "digitCount (areaCode @ localNumber) = length (areaCode @ localNumber)"
    by (rule digitCount_all_digits [OF assms(6)])
  have "ValidatePhoneNumber phoneNumber countryCode =
         (if minLength \<le> digitCount (areaCode @ localNumber)
             \<and> digitCount (areaCode @ localNumber) \<le> maxLength
          then Inr \<lparr>PhoneNumber = formatPhoneNumber C areaCode localNumber,
                    CountryCode = C, AreaCode = areaCode, LocalPhoneNumber = localNumber\<rparr>
          else Inl (PhoneLengthInvalid C))"
    unfolding count ValidatePhoneNumber_reaches_length_check [OF assms(1-5)]
    using lens by (auto simp add: validatePhoneLength_def)
  with lens show ?thesis by blast
qed

lemma too_short_for_US:
  "ValidatePhoneNumber ''+1212569'' [] = Inl (PhoneLengthInvalid ''US'')"
  by (simp add: defs tables)

subsection \<open>Errors of the steps\<close>

lemma extractDialingCode_fails:
  assumes "\<not> hasDialingCode s"
  shows "extractDialingCode s = Inl UnableToExtractDialingCode"
proof (cases "extractDialingCode s")
  case (Inl err)
  with extractDialingCode_Inl show ?thesis by blast
next
  case (Inr r)
  then have "extractDialingCode s = Inr (fst r, snd r)" by simp
  from extractDialingCode_Inr [OF this] have "hasDialingCode s"
    unfolding hasDialingCode_iff HasPrefix_append by blast
  with assms show ?thesis by simp
qed

lemma validateSpacing_Some:
  "validateSpacing s = Some err \<Longrightarrow> err = InvalidSpacingPattern"
  by (simp add: validateSpacing_def split: if_splits)

lemma cleanPhoneNumber_Inl:
  "cleanPhoneNumber s = Inl err \<Longrightarrow> err = InvalidCharacters \<and> \<not> validChars_MatchString s"
  by (simp add: cleanPhoneNumber_def split: if_splits)

lemma validateCountryCode_Some:
  "validateCountryCode C = Some err \<Longrightarrow>
     err = CountryCodeMustBe2Characters \<or> err = UnsupportedCountryCode"
  by (auto simp add: validateCountryCode_def split: if_splits)

lemma validatePhoneLength_Some:
  "validatePhoneLength n C = Some err \<Longrightarrow>
     err = UnsupportedCountryCode \<or> err = PhoneLengthInvalid C"
  by (auto simp add: validatePhoneLength_def split: option.splits if_splits)

lemma parsePhoneNumber_Inl:
  assumes "parsePhoneNumber s cc = Inl err"
  shows "err = UnableToExtractDialingCode \<or> err = CountryCodeRequired"
proof -
  let ?p = "if HasPrefix s ''+'' then drop 1 s else s"
  show ?thesis
  proof (cases "extractDialingCode ?p")
    case (Inl e)
    with extractDialingCode_Inl have "e = UnableToExtractDialingCode" by blast
    with assms Inl show ?thesis
      unfolding parsePhoneNumber_def Let_def by (auto split: if_splits prod.splits)
  next
    case (Inr r)
    then have ex: "extractDialingCode ?p = Inr (fst r, snd r)" by simp
    from extractDialingCode_Inr [OF this] obtain C
      where "DialingCodeToCountry (fst r) = Some C" by blast
    with assms ex show ?thesis
      unfolding parsePhoneNumber_def Let_def by (auto split: if_splits prod.splits)
  qed
qed

text \<open>The errors the validator can return.\<close>

lemma ValidatePhoneNumber_Inl:
  assumes "ValidatePhoneNumber p cc = Inl err"
  shows "err \<in> {PhoneNumberRequired, InvalidSpacingPattern, InvalidCharacters,
       UnableToExtractDialingCode, CountryCodeRequired, CountryCodeMustBe2Characters,
       UnsupportedCountryCode} \<or> (\<exists>C. err = PhoneLengthInvalid C)"
proof (cases "p = []")
  case True
  with assms show ?thesis by (simp add: ValidatePhoneNumber_def)
next
  case nonempty: False
  show ?thesis
  proof (cases "validateSpacing p")
    case (Some e)
    with assms nonempty validateSpacing_Some [OF Some] show ?thesis
      by (simp add: ValidatePhoneNumber_def)
  next
    case spacing: None
    show ?thesis
    proof (cases "cleanPhoneNumber p")
      case (Inl e)
      with assms nonempty spacing cleanPhoneNumber_Inl [OF Inl] show ?thesis
        by (simp add: ValidatePhoneNumber_def)
    next
      case clean: (Inr cleaned)
      show ?thesis
      proof (cases "parsePhoneNumber cleaned cc")
        case (Inl e)
        with assms nonempty spacing clean parsePhoneNumber_Inl [OF Inl] show ?thesis
          by (auto simp add: ValidatePhoneNumber_def)
      next
        case (Inr t)
        then obtain C a l where parse: "parsePhoneNumber cleaned cc = Inr (C, a, l)"
          by (cases t) auto
        show ?thesis
        proof (cases "validateCountryCode C")
          case (Some e)
          with assms nonempty spacing clean parse validateCountryCode_Some [OF Some]
          show ?thesis by (auto simp add: ValidatePhoneNumber_def)
        next
          case None
          note reach = ValidatePhoneNumber_reaches_length_check
            [OF nonempty spacing clean parse None]
          with assms obtain e
            where "validatePhoneLength (a @ l) C = Some e" and "err = e"
            by (auto split: option.splits)
          with validatePhoneLength_Some show ?thesis by blast
        qed
      qed
    qed
  qed
qed

lemma ValidatePhoneNumber_never_unsupported_dialing_code:
  "ValidatePhoneNumber p cc \<noteq> Inl UnsupportedCountryDialingCode"
  using ValidatePhoneNumber_Inl [of p cc UnsupportedCountryDialingCode] by auto

lemma unknown_dialing_code_error:
  assumes "phoneNumber \<noteq> []" and "validateSpacing phoneNumber = None"
    and "cleanPhoneNumber phoneNumber = Inr (''+'' @ digits)"
    and "\<not> hasDialingCode digits"
  shows "ValidatePhoneNumber phoneNumber countryCode = Inl UnableToExtractDialingCode"
  using assms
  by (simp add: ValidatePhoneNumber_def parsePhoneNumber_def HasPrefix_def
      extractDialingCode_fails)

lemma invalid_characters_iff:
  assumes "phoneNumber \<noteq> []" and "validateSpacing phoneNumber = None"
  shows "ValidatePhoneNumber phoneNumber countryCode = Inl InvalidCharacters
     \<longleftrightarrow> (\<exists>c \<in> set phoneNumber. \<not> validChar c)"
proof (cases "cleanPhoneNumber phoneNumber")
  case (Inl e)
  from cleanPhoneNumber_Inl [OF Inl] assms Inl show ?thesis
    by (auto simp: ValidatePhoneNumber_def validChars_MatchString_def list_all_iff)
next
  case (Inr cleaned)
  then have ok: "\<not> (\<exists>c \<in> set phoneNumber. \<not> validChar c)"
    by (auto simp: cleanPhoneNumber_def validChars_MatchString_def list_all_iff
        split: if_splits)
  have "ValidatePhoneNumber phoneNumber countryCode \<noteq> Inl InvalidCharacters"
  proof
    assume bad: "ValidatePhoneNumber phoneNumber countryCode = Inl InvalidCharacters"
    show False
    proof (cases "parsePhoneNumber cleaned countryCode")
      case (Inl e)
      with bad assms Inr parsePhoneNumber_Inl [OF Inl] show False
        by (auto simp add: ValidatePhoneNumber_def)
    next
      case parsed: (Inr t)
      then obtain C a l where parse: "parsePhoneNumber cleaned countryCode = Inr (C, a, l)"
        by (cases t) auto
      show False
      proof (cases "validateCountryCode C")
        case (Some e)
        with bad assms Inr parse validateCountryCode_Some [OF Some] show False
          by (auto simp add: ValidatePhoneNumber_def)
      next
        case None
        note reach = ValidatePhoneNumber_reaches_length_check [OF assms Inr parse None]
        with bad obtain e
          where "validatePhoneLength (a @ l) C = Some e" and "e = InvalidCharacters"
          by (auto split: option.splits)
        with validatePhoneLength_Some show False by blast
      qed
    qed
  qed
  with ok show ?thesis by simp
qed

lemma digits_spaces_plus_never_invalid_characters:
  assumes "\<forall>c \<in> set phoneNumber. isDigit c \<or> c = CHR '' '' \<or> c = CHR ''+''"
  shows "ValidatePhoneNumber phoneNumber countryCode \<noteq> Inl InvalidCharacters"
proof (cases "phoneNumber = []")
  case True
  then show ?thesis by (simp add: ValidatePhoneNumber_def)
next
  case nonempty: False
  show ?thesis
  proof (cases "validateSpacing phoneNumber")
    case (Some e)
    with nonempty validateSpacing_Some [OF Some] show ?thesis
      by (simp add: ValidatePhoneNumber_def)
  next
    case None
    from assms have "\<not> (\<exists>c \<in> set phoneNumber. \<not> validChar c)"
      by (auto simp: validChar_def isWhitespace_def)
    with invalid_characters_iff [OF nonempty None] show ?thesis by simp
  qed
qed

subsection \<open>Validating a canonical string\<close>

lemma splitNationalNumber_append:
  "splitNationalNumber n C = (a, l) \<Longrightarrow> a @ l = n"
  by (auto simp: splitNationalNumber_def split: if_splits)

lemma splitNationalNumber_CA: "splitNationalNumber n ''CA'' = splitNationalNumber n ''US''"
  by (simp add: splitNationalNumber_def)

lemma CountryPhoneLengths_cases:
  "CountryPhoneLengths C = Some lens \<Longrightarrow> (C, lens) \<in> set CountryPhoneLengths_entries"
  unfolding CountryPhoneLengths_def by (rule map_of_SomeD)

lemma supported_country:
  assumes "CountryPhoneLengths C = Some lens"
  shows "\<exists>d. CountryDialingCodes C = Some d
     \<and> DialingCodeToCountry d = Some (if C = ''CA'' then ''US'' else C)
     \<and> CountryPhoneLengths (if C = ''CA'' then ''US'' else C) = Some lens"
  using CountryPhoneLengths_cases [OF assms]
  apply (simp add: CountryPhoneLengths_entries_def)
  apply (elim disjE conjE)
  apply (simp_all add: tables)
  done

lemma known_code:
  assumes "DialingCodeToCountry d = Some C"
  shows "CountryDialingCodes C = Some d \<and> length C = 2 \<and> list_all isDigit d"
  using DialingCodeToCountry_cases [OF assms]
  apply (simp add: DialingCodeToCountry_entries_def)
  apply (elim disjE conjE)
  apply (simp_all add: tables isDigit_def)
  done

lemma isDigit_validChar: "isDigit c \<Longrightarrow> validChar c \<and> c \<noteq> CHR '' ''"
  by (auto simp: validChar_def isDigit_def)

lemma parsePhoneNumber_plus:
  assumes "DialingCodeToCountry d = Some C"
  shows "parsePhoneNumber (''+'' @ d @ n) cc =
     Inr (C, fst (splitNationalNumber n C), snd (splitNationalNumber n C))"
  using assms
  by (simp add: parsePhoneNumber_def HasPrefix_def extractDialingCode_known split_beta)

lemma ValidatePhoneNumber_canonical:
  assumes known: "DialingCodeToCountry d = Some C"
    and lens: "CountryPhoneLengths C = Some (minLength, maxLength)"
    and len: "minLength \<le> length n" "length n \<le> maxLength"
    and chars: "list_all validChar n" "CHR '' '' \<notin> set n"
  shows "ValidatePhoneNumber (''+'' @ d @ n) cc =
     Inr \<lparr>PhoneNumber = ''+'' @ d @ n, CountryCode = C,
          AreaCode = fst (splitNationalNumber n C),
          LocalPhoneNumber = snd (splitNationalNumber n C)\<rparr>"
proof -
  let ?s = "''+'' @ d @ n"
  from known_code [OF known]
  have dial: "CountryDialingCodes C = Some d" and two: "length C = 2"
    and digits: "list_all isDigit d" by auto
  from digits have dvalid: "list_all validChar d" and dspace: "CHR '' '' \<notin> set d"
    using isDigit_validChar by (auto simp: list_all_iff)
  have nospace: "CHR '' '' \<notin> set ?s" using dspace chars(2) by simp
  have valid: "list_all validChar ?s" using dvalid chars(1) by (simp add: validChar_def)
  have spacing: "validateSpacing ?s = None"
    using nospace unfolding validateSpacing_def by (simp only: if_False)
  have "filter (\<lambda>c. c \<noteq> CHR '' '') ?s = ?s"
    using nospace by (intro filter_True) auto
  then have clean: "cleanPhoneNumber ?s = Inr ?s"
    using valid by (simp add: cleanPhoneNumber_def validChars_MatchString_def)
  have parse: "parsePhoneNumber ?s cc =
     Inr (C, fst (splitNationalNumber n C), snd (splitNationalNumber n C))"
    by (rule parsePhoneNumber_plus [OF known])
  have country: "validateCountryCode C = None"
    using two lens by (simp add: validateCountryCode_def)
  have whole: "fst (splitNationalNumber n C) @ snd (splitNationalNumber n C) = n"
    by (rule splitNationalNumber_append) simp
  have length_ok: "validatePhoneLength
      (fst (splitNationalNumber n C) @ snd (splitNationalNumber n C)) C = None"
    using lens len by (simp add: whole validatePhoneLength_def)
  have format: "formatPhoneNumber C (fst (splitNationalNumber n C))
      (snd (splitNationalNumber n C)) = ?s"
    using whole by (simp add: formatPhoneNumber_def dial)
  have "?s \<noteq> []" by simp
  from ValidatePhoneNumber_reaches_length_check [OF this spacing clean parse country]
  show ?thesis by (simp only: length_ok format option.case)
qed

lemma ValidatePhoneNumber_InrD:
  assumes "ValidatePhoneNumber phoneNumber countryCode = Inr r"
  shows "\<exists>cleaned C a l.
      cleanPhoneNumber phoneNumber = Inr cleaned
    \<and> parsePhoneNumber cleaned countryCode = Inr (C, a, l)
    \<and> validateCountryCode C = None
    \<and> validatePhoneLength (a @ l) C = None
    \<and> r = \<lparr>PhoneNumber = formatPhoneNumber C a l, CountryCode = C,
            AreaCode = a, LocalPhoneNumber = l\<rparr>"
  using assms unfolding ValidatePhoneNumber_def
  by (simp split: if_splits option.splits sum.splits prod.splits)

lemma parsePhoneNumber_InrD:
  assumes "parsePhoneNumber cleaned countryCode = Inr (C, a, l)"
  shows "\<exists>n. splitNationalNumber n C = (a, l) \<and> set n \<subseteq> set cleaned"
proof (cases "HasPrefix cleaned ''+'' \<or> hasDialingCode
    (if HasPrefix cleaned ''+'' then drop 1 cleaned else cleaned)")
  case True
  let ?p = "if HasPrefix cleaned ''+'' then drop 1 cleaned else cleaned"
  from assms True obtain d rest where ex: "extractDialingCode ?p = Inr (d, rest)"
    and sp: "splitNationalNumber rest C = (a, l)"
    unfolding parsePhoneNumber_def Let_def
    by (simp split: sum.splits prod.splits option.splits)
  from extractDialingCode_Inr [OF ex] have "set rest \<subseteq> set ?p" by auto
  also have "set ?p \<subseteq> set cleaned" by (simp add: set_drop_subset)
  finally show ?thesis using sp by blast
next
  case False
  with assms have "splitNationalNumber cleaned C = (a, l)"
    unfolding parsePhoneNumber_def Let_def
    by (auto split: if_splits prod.splits)
  then show ?thesis by blast
qed

lemma cleanPhoneNumber_InrD:
  assumes "cleanPhoneNumber phoneNumber = Inr cleaned"
  shows "list_all validChar cleaned \<and> CHR '' '' \<notin> set cleaned"
  using assms
  by (auto simp: cleanPhoneNumber_def validChars_MatchString_def list_all_iff
      split: if_splits)

lemma validatePhoneLength_NoneD:
  assumes "validatePhoneLength n C = None"
  shows "\<exists>minLength maxLength. CountryPhoneLengths C = Some (minLength, maxLength)
     \<and> minLength \<le> length n \<and> length n \<le> maxLength"
  using assms
  by (auto simp: validatePhoneLength_def split: option.splits if_splits)

section \<open>The claims\<close>

text \<open>
  C1. The claim: for every supported country, validating the canonical output again with
  no supplied country code gives back the same country, area code and local number. The
  dialing code \<open>1\<close> of CA is mapped back to US only: \<open>4165550123\<close> validates for CA to
  \<open>+14165550123\<close>, and that string validates to US.
\<close>

theorem C1_CA_reparsed_as_US_counterexample:
  "ValidatePhoneNumber ''4165550123'' ''CA'' =
     Inr \<lparr>PhoneNumber = ''+14165550123'', CountryCode = ''CA'',
          AreaCode = ''416'', LocalPhoneNumber = ''5550123''\<rparr>
   \<and> CountryPhoneLengths ''CA'' = Some (10, 10)
   \<and> ValidatePhoneNumber ''+14165550123'' [] =
     Inr \<lparr>PhoneNumber = ''+14165550123'', CountryCode = ''US'',
          AreaCode = ''416'', LocalPhoneNumber = ''5550123''\<rparr>"
  by (simp add: defs tables)

text \<open>
  C1, amended. Whenever validation succeeds, its output is \<open>+\<close>, the dialing code of the
  resulting country, the area code and the local number; and validating that output with
  no supplied country code succeeds with the same output, area code and local number and
  with the same country, except that CA comes back as US.
\<close>

theorem C1_roundtrip:
  assumes "ValidatePhoneNumber phoneNumber countryCode = Inr r"
  shows "(\<exists>dialingCode. CountryDialingCodes (CountryCode r) = Some dialingCode
        \<and> PhoneNumber r = ''+'' @ dialingCode @ AreaCode r @ LocalPhoneNumber r)
    \<and> ValidatePhoneNumber (PhoneNumber r) [] =
        Inr (r\<lparr>CountryCode := if CountryCode r = ''CA'' then ''US'' else CountryCode r\<rparr>)"
proof -
  from ValidatePhoneNumber_InrD [OF assms] obtain cleaned C a l
    where clean: "cleanPhoneNumber phoneNumber = Inr cleaned"
      and parse: "parsePhoneNumber cleaned countryCode = Inr (C, a, l)"
      and len: "validatePhoneLength (a @ l) C = None"
      and r: "r = \<lparr>PhoneNumber = formatPhoneNumber C a l, CountryCode = C,
            AreaCode = a, LocalPhoneNumber = l\<rparr>"
    by blast
  let ?C = "if C = ''CA'' then ''US'' else C"
  from parsePhoneNumber_InrD [OF parse] obtain n
    where split: "splitNationalNumber n C = (a, l)" and sub: "set n \<subseteq> set cleaned"
    by blast
  from splitNationalNumber_append [OF split] have n: "a @ l = n" .
  from cleanPhoneNumber_InrD [OF clean] sub
  have chars: "list_all validChar n" "CHR '' '' \<notin> set n"
    by (auto simp: list_all_iff)
  from validatePhoneLength_NoneD [OF len] n obtain minLength maxLength
    where lens: "CountryPhoneLengths C = Some (minLength, maxLength)"
      and bounds: "minLength \<le> length n" "length n \<le> maxLength"
    by auto
  from supported_country [OF lens] obtain d
    where dial: "CountryDialingCodes C = Some d"
      and known: "DialingCodeToCountry d = Some ?C"
      and lens': "CountryPhoneLengths ?C = Some (minLength, maxLength)"
    by blast
  have split': "splitNationalNumber n ?C = (a, l)"
    using split splitNationalNumber_CA [of n] by auto
  have canonical: "PhoneNumber r = ''+'' @ d @ n"
    using r dial n by (simp add: formatPhoneNumber_def)
  have "ValidatePhoneNumber (''+'' @ d @ n) [] =
     Inr \<lparr>PhoneNumber = ''+'' @ d @ n, CountryCode = ?C,
          AreaCode = fst (splitNationalNumber n ?C),
          LocalPhoneNumber = snd (splitNationalNumber n ?C)\<rparr>"
    by (rule ValidatePhoneNumber_canonical [OF known lens' bounds chars])
  then have again: "ValidatePhoneNumber (PhoneNumber r) [] =
     Inr (r\<lparr>CountryCode := ?C\<rparr>)"
    using canonical r split' by simp
  have "CountryDialingCodes (CountryCode r) = Some d
        \<and> PhoneNumber r = ''+'' @ d @ AreaCode r @ LocalPhoneNumber r"
    using r dial by (simp add: formatPhoneNumber_def)
  then show ?thesis using again r by auto
qed

theorem C1_roundtrip_witness:
  "ValidatePhoneNumber ''34 915 872200'' [] =
     Inr \<lparr>PhoneNumber = ''+34915872200'', CountryCode = ''ES'',
          AreaCode = ''91'', LocalPhoneNumber = ''5872200''\<rparr>
   \<and> CountryDialingCodes ''ES'' = Some ''34''
   \<and> ValidatePhoneNumber ''+34915872200'' [] =
     Inr \<lparr>PhoneNumber = ''+34915872200'', CountryCode = ''ES'',
          AreaCode = ''91'', LocalPhoneNumber = ''5872200''\<rparr>"
proof -
  have first: "ValidatePhoneNumber ''34 915 872200'' [] =
     Inr \<lparr>PhoneNumber = ''+34915872200'', CountryCode = ''ES'',
          AreaCode = ''91'', LocalPhoneNumber = ''5872200''\<rparr>"
    by (simp add: defs tables)
  from C1_roundtrip [OF first] first show ?thesis
    by (simp add: tables)
qed

text \<open>
  C2. The claim: an input that passes the spacing and character checks and whose normalized
  form is \<open>+\<close> followed by digits that begin with no known dialing code fails with
  \<open>unsupported country dialing code\<close>. On \<open>+999123456789\<close> the validator fails
  instead with the error of \<open>extractDialingCode\<close>, \<open>unable to extract dialing code\<close>.
\<close>

theorem C2_unknown_code_gives_unable_to_extract:
  "ValidatePhoneNumber ''+999123456789'' [] = Inl UnableToExtractDialingCode"
  by (simp add: defs tables)

text \<open>
  C3. The claim: after the spacing check, an input fails with \<open>invalid characters\<close> exactly
  when it has a character that is no digit, no space and no \<open>+\<close>. A tab is such a
  character, and the validator accepts \<open>212<TAB>569012\<close> for \<open>US\<close>: the class \<open>\s\<close>
  admits the tab and only the byte \<open>0x20\<close> is removed afterwards, so the tab is part of
  the returned number.
\<close>

theorem C3_tab_accepted:
  "ValidatePhoneNumber (''212'' @ [CHR 0x09] @ ''569012'') ''US'' =
     Inr \<lparr>PhoneNumber = ''+1212'' @ [CHR 0x09] @ ''569012'', CountryCode = ''US'',
          AreaCode = ''212'', LocalPhoneNumber = [CHR 0x09] @ ''569012''\<rparr>"
  by (simp add: defs tables)

text \<open>
  C4. A non-empty input that contains a space and splits on single spaces into exactly 4
  parts fails with \<open>invalid spacing pattern\<close>, whatever its characters and whatever the
  supplied country code; so it never fails with \<open>invalid characters\<close>.
\<close>

theorem C4_four_parts_invalid_spacing:
  assumes "phoneNumber \<noteq> []" and "CHR '' '' \<in> set phoneNumber"
    and "length (Split phoneNumber (CHR '' '')) = 4"
  shows "ValidatePhoneNumber phoneNumber countryCode = Inl InvalidSpacingPattern
    \<and> ValidatePhoneNumber phoneNumber countryCode \<noteq> Inl InvalidCharacters"
  using assms by (simp add: ValidatePhoneNumber_def validateSpacing_def)

theorem C4_four_parts_invalid_spacing_witness:
  "''a b c d'' \<noteq> [] \<and> CHR '' '' \<in> set ''a b c d''
   \<and> length (Split ''a b c d'' (CHR '' '')) = 4
   \<and> ValidatePhoneNumber ''a b c d'' [] = Inl InvalidSpacingPattern
   \<and> ValidatePhoneNumber ''351 21 094 2000'' [] = Inl InvalidSpacingPattern"
  using C4_four_parts_invalid_spacing [of "''a b c d''" "[]"]
    C4_four_parts_invalid_spacing [of "''351 21 094 2000''" "[]"]
  by simp

text \<open>
  C5. Dialing-code extraction probes longest first: a known 3-character prefix is chosen;
  otherwise a known 2-character prefix; otherwise a known 1-character prefix. Hence the
  extracted code is at least as long as every known code the string starts with.
\<close>

theorem C5_longest_match_first:
  "(3 \<le> length s \<and> take 3 s \<in> dom DialingCodeToCountry
      \<longrightarrow> extractDialingCode s = Inr (take 3 s, drop 3 s))
   \<and> (\<not> (3 \<le> length s \<and> take 3 s \<in> dom DialingCodeToCountry)
        \<and> 2 \<le> length s \<and> take 2 s \<in> dom DialingCodeToCountry
      \<longrightarrow> extractDialingCode s = Inr (take 2 s, drop 2 s))
   \<and> (\<not> (3 \<le> length s \<and> take 3 s \<in> dom DialingCodeToCountry)
        \<and> \<not> (2 \<le> length s \<and> take 2 s \<in> dom DialingCodeToCountry)
        \<and> 1 \<le> length s \<and> take 1 s \<in> dom DialingCodeToCountry
      \<longrightarrow> extractDialingCode s = Inr (take 1 s, drop 1 s))
   \<and> (\<forall>d rest d'. extractDialingCode s = Inr (d, rest)
        \<and> d' \<in> dom DialingCodeToCountry \<and> HasPrefix s d'
      \<longrightarrow> length d' \<le> length d)"
proof -
  have longest: "length d' \<le> length d"
    if "extractDialingCode s = Inr (d, rest)" "d' \<in> dom DialingCodeToCountry" "HasPrefix s d'"
    for d rest d'
  proof -
    from that(2) obtain C where "DialingCodeToCountry d' = Some C" by blast
    moreover from that(3) obtain rest' where "s = d' @ rest'"
      unfolding HasPrefix_append by blast
    ultimately have "extractDialingCode s = Inr (d', rest')"
      by (simp add: extractDialingCode_known)
    with that(1) show ?thesis by simp
  qed
  have three: "3 \<le> length s \<and> take 3 s \<in> dom DialingCodeToCountry
      \<longrightarrow> extractDialingCode s = Inr (take 3 s, drop 3 s)"
    by (auto simp: extractDialingCode_def)
  have two: "\<not> (3 \<le> length s \<and> take 3 s \<in> dom DialingCodeToCountry)
        \<and> 2 \<le> length s \<and> take 2 s \<in> dom DialingCodeToCountry
      \<longrightarrow> extractDialingCode s = Inr (take 2 s, drop 2 s)"
    by (auto simp: extractDialingCode_def)
  have one: "\<not> (3 \<le> length s \<and> take 3 s \<in> dom DialingCodeToCountry)
        \<and> \<not> (2 \<le> length s \<and> take 2 s \<in> dom DialingCodeToCountry)
        \<and> 1 \<le> length s \<and> take 1 s \<in> dom DialingCodeToCountry
      \<longrightarrow> extractDialingCode s = Inr (take 1 s, drop 1 s)"
    by (auto simp: extractDialingCode_def)
  from three two one longest show ?thesis by blast
qed

theorem C5_longest_match_first_witness:
  "3 \<le> length ''351210942000'' \<and> take 3 ''351210942000'' \<in> dom DialingCodeToCountry
   \<and> extractDialingCode ''351210942000'' = Inr (''351'', ''210942000'')
   \<and> \<not> (3 \<le> length ''34915872200'' \<and> take 3 ''34915872200'' \<in> dom DialingCodeToCountry)
   \<and> take 2 ''34915872200'' \<in> dom DialingCodeToCountry
   \<and> extractDialingCode ''34915872200'' = Inr (''34'', ''915872200'')
   \<and> \<not> (3 \<le> length ''12125690123'' \<and> take 3 ''12125690123'' \<in> dom DialingCodeToCountry)
   \<and> \<not> (2 \<le> length ''12125690123'' \<and> take 2 ''12125690123'' \<in> dom DialingCodeToCountry)
   \<and> take 1 ''12125690123'' \<in> dom DialingCodeToCountry
   \<and> extractDialingCode ''12125690123'' = Inr (''1'', ''2125690123'')
   \<and> ''351'' \<in> dom DialingCodeToCountry \<and> HasPrefix ''351210942000'' ''351''
   \<and> length ''351'' \<le> length (fst (''351'', ''210942000''))"
  using C5_longest_match_first [of "''351210942000''"] C5_longest_match_first [of "''34915872200''"] C5_longest_match_first [of "''12125690123''"]
  by (simp add: tables HasPrefix_def dom_def)

text \<open>
  C6. The split of the national number into area code and local number takes a prefix of
  fixed length: 3 for US, CA, MX and DE; 2 for ES, PT, FR, IT and BR; for GB 4 when the
  national number has at least 4 characters and 3 otherwise; and a national number of
  fewer than 3 characters has an empty area code and is the local number as a whole.
\<close>

theorem C6_split_lengths:
  "(3 \<le> length n \<and> C \<in> {''US'', ''CA'', ''MX'', ''DE''}
      \<longrightarrow> splitNationalNumber n C = (take 3 n, drop 3 n))
   \<and> (3 \<le> length n \<and> C \<in> {''ES'', ''PT'', ''FR'', ''IT'', ''BR''}
      \<longrightarrow> splitNationalNumber n C = (take 2 n, drop 2 n))
   \<and> (4 \<le> length n \<longrightarrow> splitNationalNumber n ''GB'' = (take 4 n, drop 4 n))
   \<and> (length n = 3 \<longrightarrow> splitNationalNumber n ''GB'' = (take 3 n, drop 3 n))
   \<and> (length n < 3 \<longrightarrow> splitNationalNumber n C = ([], n))"
  apply (intro conjI impI)
      apply (auto simp: splitNationalNumber_def)
  done

theorem C6_split_lengths_witness:
  "splitNationalNumber ''2125690123'' ''US'' = (''212'', ''5690123'')
   \<and> splitNationalNumber ''4165550123'' ''CA'' = (''416'', ''5550123'')
   \<and> splitNationalNumber ''6313118150'' ''MX'' = (''631'', ''3118150'')
   \<and> splitNationalNumber ''3012345678'' ''DE'' = (''301'', ''2345678'')
   \<and> splitNationalNumber ''915872200'' ''ES'' = (''91'', ''5872200'')
   \<and> splitNationalNumber ''210942000'' ''PT'' = (''21'', ''0942000'')
   \<and> splitNationalNumber ''2079460958'' ''GB'' = (''2079'', ''460958'')
   \<and> splitNationalNumber ''207'' ''GB'' = (''207'', '''')
   \<and> splitNationalNumber ''20'' ''GB'' = ('''', ''20'')
   \<and> splitNationalNumber ''21'' ''US'' = ('''', ''21'')"
  using C6_split_lengths [of "''2125690123''" "''US''"] C6_split_lengths [of "''4165550123''" "''CA''"]
    C6_split_lengths [of "''6313118150''" "''MX''"] C6_split_lengths [of "''3012345678''" "''DE''"]
    C6_split_lengths [of "''915872200''" "''ES''"] C6_split_lengths [of "''210942000''" "''PT''"]
    C6_split_lengths [of "''2079460958''" "''GB''"] C6_split_lengths [of "''207''" "''GB''"]
    C6_split_lengths [of "''20''" "''GB''"] C6_split_lengths [of "''21''" "''US''"]
  by simp

text \<open>
  C7. An input that reaches length validation with country \<open>C\<close> is to succeed exactly when
  the digit count of area code and local number lies within the inclusive range of \<open>C\<close>,
  and to fail otherwise with the length error that names \<open>C\<close>. The validator does so
  whenever only digits reach the length check (\<open>length_validation_on_digits\<close>), but it
  measures with \<open>len\<close>, and the character check lets characters other than digits
  through: \<open>2125+90123\<close> for US reaches length validation with 9 digits, outside the
  range 10 to 10, and is accepted, where the claim has the length error for US.
\<close>

theorem C7_nine_digit_US_number_accepted:
  "validateSpacing ''2125+90123'' = None
   \<and> cleanPhoneNumber ''2125+90123'' = Inr ''2125+90123''
   \<and> parsePhoneNumber ''2125+90123'' ''US'' = Inr (''US'', ''212'', ''5+90123'')
   \<and> validateCountryCode ''US'' = None
   \<and> CountryPhoneLengths ''US'' = Some (10, 10)
   \<and> digitCount (''212'' @ ''5+90123'') = 9
   \<and> ValidatePhoneNumber ''2125+90123'' ''US'' =
       Inr \<lparr>PhoneNumber = ''+12125+90123'', CountryCode = ''US'',
            AreaCode = ''212'', LocalPhoneNumber = ''5+90123''\<rparr>"
  by (simp add: defs tables digitCount_def)

text \<open>
  C8. The supplied country code is compared as it is, without folding case: a supplied
  code of 2 characters that is none of the ten upper-case codes, on a number that passes
  the presence, spacing and character checks and has neither a leading \<open>+\<close> nor a known
  dialing code in front, fails with \<open>unsupported country code\<close>.
\<close>

theorem C8_country_code_case_sensitive:
  assumes "length countryCode = 2"
    and "countryCode \<notin> {''US'', ''CA'', ''MX'', ''ES'', ''PT'', ''GB'', ''FR'', ''DE'', ''IT'', ''BR''}"
    and "phoneNumber \<noteq> []" and "validateSpacing phoneNumber = None"
    and "cleanPhoneNumber phoneNumber = Inr cleaned"
    and "\<not> HasPrefix cleaned ''+''" and "\<not> hasDialingCode cleaned"
  shows "ValidatePhoneNumber phoneNumber countryCode = Inl UnsupportedCountryCode"
proof -
  from assms(1) have "countryCode \<noteq> []" by auto
  with assms(6,7)
  have "parsePhoneNumber cleaned countryCode =
      Inr (countryCode, fst (splitNationalNumber cleaned countryCode),
           snd (splitNationalNumber cleaned countryCode))"
    by (simp add: parsePhoneNumber_def split_beta)
  moreover from assms(2) have "CountryPhoneLengths countryCode = None"
    by (simp add: tables)
  with assms(1) have "validateCountryCode countryCode = Some UnsupportedCountryCode"
    by (simp add: validateCountryCode_def)
  ultimately show ?thesis
    using assms(3-5) by (simp add: ValidatePhoneNumber_def)
qed

theorem C8_country_code_case_sensitive_witness:
  "length ''us'' = 2
   \<and> ''us'' \<notin> {''US'', ''CA'', ''MX'', ''ES'', ''PT'', ''GB'', ''FR'', ''DE'', ''IT'', ''BR''}
   \<and> ''2125690123'' \<noteq> [] \<and> validateSpacing ''2125690123'' = None
   \<and> cleanPhoneNumber ''2125690123'' = Inr ''2125690123''
   \<and> \<not> HasPrefix ''2125690123'' ''+'' \<and> \<not> hasDialingCode ''2125690123''
   \<and> ValidatePhoneNumber ''2125690123'' ''us'' = Inl UnsupportedCountryCode"
  using C8_country_code_case_sensitive [of "''us''" "''2125690123''" "''2125690123''"]
  by (simp add: defs tables)

end
